theory Spec2Isabelle
  imports Complex_Main
begin

section \<open>Numbers\<close>

text \<open>
  The Python sources compute with \<open>float\<close> (and with \<open>int\<close> where a literal such as
  \<open>10000\<close> is given). The embedding idealises both as \<open>real\<close>: \<open>0.001\<close> is
  \<open>1 / 1000\<close>, \<open>0.5\<close> is \<open>1 / 2\<close>, \<open>0.95\<close> is \<open>95 / 100\<close>. The two values of
  IEEE arithmetic that the sources rely on and that \<open>real\<close> lacks are written out
  where they occur: \<open>float('inf')\<close> as the constructor \<open>PosInf\<close> below, and NaN
  (numpy's mean of an empty array, pandas' undefined rolling mean) as \<open>None\<close>.
\<close>

datatype pyfloat = Fin real | PosInf

text \<open>\<open>x > y\<close> for a finite \<open>x\<close>: nothing finite exceeds \<open>float('inf')\<close>.\<close>

fun gt_pyfloat :: "real \<Rightarrow> pyfloat \<Rightarrow> bool" where
  "gt_pyfloat x (Fin y) = (y < x)"
| "gt_pyfloat x PosInf = False"

section \<open>The ledger: \<open>examples/simple_backtest.py\<close>, class \<open>SimpleBacktester\<close>\<close>

type_synonym timestamp = nat

text \<open>
  The dicts appended to \<open>self.trades\<close>. A BUY dict has the keys
  \<open>timestamp, type, price, shares, cost\<close>; a SELL dict has
  \<open>timestamp, type, price, shares, proceeds\<close>. A key that a dict does not have is
  \<open>None\<close> here, which is what \<open>t.get(key, default)\<close> tests.
\<close>

record ledger_trade =
  timestamp :: timestamp
  ttype :: string
  price :: real
  shares :: real
  cost :: "real option"
  proceeds :: "real option"

record SimpleBacktester =
  bt_initial_capital :: real
  bt_commission :: real
  bt_capital :: real
  bt_position :: real
  bt_trades :: "ledger_trade list"
  bt_equity_curve :: "(timestamp \<times> real) list"

text \<open>\<open>reset\<close>, and \<open>__init__\<close>, which stores the two options and calls it.\<close>

definition reset :: "SimpleBacktester \<Rightarrow> SimpleBacktester" where
  "reset self = self\<lparr>bt_capital := bt_initial_capital self, bt_position := 0,
                     bt_trades := [], bt_equity_curve := []\<rparr>"

definition SimpleBacktester_init :: "real \<Rightarrow> real \<Rightarrow> SimpleBacktester" where
  "SimpleBacktester_init initial_capital commission =
     reset \<lparr>bt_initial_capital = initial_capital, bt_commission = commission,
            bt_capital = 0, bt_position = 0, bt_trades = [], bt_equity_curve = []\<rparr>"

definition execute_trade :: "SimpleBacktester \<Rightarrow> real \<Rightarrow> real \<Rightarrow> timestamp \<Rightarrow> SimpleBacktester" where
  "execute_trade self price_arg shares_arg ts =
     (let cost_v = \<bar>shares_arg * price_arg\<bar>;
          commission_cost = cost_v * bt_commission self
      in if shares_arg > 0 then
           (let total_cost = cost_v + commission_cost
            in if total_cost \<le> bt_capital self then
                 self\<lparr>bt_capital := bt_capital self - total_cost,
                      bt_position := bt_position self + shares_arg,
                      bt_trades := bt_trades self @
                        [\<lparr>timestamp = ts, ttype = ''BUY'', price = price_arg,
                          shares = shares_arg, cost = Some total_cost, proceeds = None\<rparr>]\<rparr>
               else self)
         else
           (let shares_to_sell = \<bar>shares_arg\<bar>
            in if shares_to_sell \<le> bt_position self then
                 (let proceeds_v = cost_v - commission_cost
                  in self\<lparr>bt_capital := bt_capital self + proceeds_v,
                          bt_position := bt_position self - shares_to_sell,
                          bt_trades := bt_trades self @
                            [\<lparr>timestamp = ts, ttype = ''SELL'', price = price_arg,
                              shares = shares_to_sell, cost = None,
                              proceeds = Some proceeds_v\<rparr>]\<rparr>)
               else self))"

definition get_portfolio_value :: "SimpleBacktester \<Rightarrow> real \<Rightarrow> real" where
  "get_portfolio_value self current_price = bt_capital self + bt_position self * current_price"

section \<open>The run: \<open>run_sma_crossover_backtest\<close>\<close>

datatype py_error = ValueError | KeyError | AttributeError

text \<open>
  \<open>calculate_sma\<close> is pandas' \<open>prices.rolling(window=period).mean()\<close>: the mean of
  the \<open>period\<close> most recent values, NaN (\<open>None\<close>) while fewer than \<open>period\<close>
  values have been seen and for an empty window; a negative window raises
  \<open>ValueError\<close>.
\<close>

definition calculate_sma :: "real list \<Rightarrow> int \<Rightarrow> py_error + real option list" where
  "calculate_sma prices period =
     (if period < 0 then Inl ValueError
      else Inr (map (\<lambda>i. if period = 0 \<or> int i + 1 < period then None
                        else Some (sum_list (take (nat period) (drop (i + 1 - nat period) prices))
                                   / real_of_int period))
                    [0..<length prices]))"

text \<open>
  The column \<open>signal\<close>: 0, overwritten by 1 where the fast average exceeds the slow
  one and by -1 where it is below; a comparison with NaN is false.
\<close>

fun signal_of :: "real option \<Rightarrow> real option \<Rightarrow> int" where
  "signal_of (Some f) (Some s) = (if f < s then -1 else if f > s then 1 else 0)"
| "signal_of _ _ = 0"

text \<open>\<open>Series.diff()\<close>: NaN in the first row, then the difference to the row before.\<close>

fun diff_from :: "int \<Rightarrow> int list \<Rightarrow> int option list" where
  "diff_from prev [] = []"
| "diff_from prev (x # xs) = Some (x - prev) # diff_from x xs"

fun diff :: "int list \<Rightarrow> int option list" where
  "diff [] = []"
| "diff (x # xs) = None # diff_from x xs"

text \<open>
  One row of the loop: the index, the close and the column \<open>position\<close> (the
  difference of the signal). The buy size is \<open>(capital * 0.5) // close\<close>. With a
  close of 0 numpy's floor division yields inf or NaN and no order can fill (NaN fails
  \<open>shares_to_buy > 0\<close>, and an infinite size has a NaN cost, which fails
  \<open>total_cost <= capital\<close>), so that row trades nothing.
\<close>

type_synonym row = "timestamp \<times> real \<times> int option"

definition process_row :: "SimpleBacktester \<Rightarrow> row \<Rightarrow> SimpleBacktester" where
  "process_row backtester r =
     (case r of (idx, close, pos) \<Rightarrow>
        let backtester' =
          (case pos of
             None \<Rightarrow> backtester
           | Some d \<Rightarrow>
               if d \<noteq> 0 then
                 if d > 0 then
                   (if close = 0 then backtester
                    else let shares_to_buy =
                               of_int \<lfloor>bt_capital backtester * (1 / 2) / close\<rfloor>
                         in if shares_to_buy > 0
                            then execute_trade backtester close shares_to_buy idx
                            else backtester)
                 else if d < 0 then
                   (if bt_position backtester > 0
                    then execute_trade backtester close (- bt_position backtester) idx
                    else backtester)
                 else backtester
               else backtester);
          portfolio_value = get_portfolio_value backtester' close
        in backtester'\<lparr>bt_equity_curve :=
                          bt_equity_curve backtester' @ [(idx, portfolio_value)]\<rparr>)"

text \<open>The backtester after each row of the loop, in row order.\<close>

fun bar_states :: "SimpleBacktester \<Rightarrow> row list \<Rightarrow> SimpleBacktester list" where
  "bar_states backtester [] = []"
| "bar_states backtester (r # rs) =
     process_row backtester r # bar_states (process_row backtester r) rs"

text \<open>\<open>Series.expanding().max()\<close>: the largest value up to and including each row.\<close>

fun expanding_max_from :: "real \<Rightarrow> real list \<Rightarrow> real list" where
  "expanding_max_from m [] = []"
| "expanding_max_from m (x # xs) = max m x # expanding_max_from (max m x) xs"

fun expanding_max :: "real list \<Rightarrow> real list" where
  "expanding_max [] = []"
| "expanding_max (x # xs) = x # expanding_max_from x xs"

text \<open>
  Lines 131-134. With a running maximum of 0 the division yields NaN or -inf in
  pandas; the model has no value for it, nor for the minimum of no rows.
\<close>

definition drawdown :: "real list \<Rightarrow> real list" where
  "drawdown vs = map2 (\<lambda>v m. (v - m) / m) vs (expanding_max vs)"

definition max_drawdown :: "real list \<Rightarrow> real option" where
  "max_drawdown vs =
     (if vs = [] \<or> 0 \<in> set (expanding_max vs) then None
      else Some (min_list (drawdown vs)))"

text \<open>
  Lines 136-140. \<open>t.get('proceeds', 0)\<close> and \<open>t.get('cost', float('inf'))\<close> read a
  key of the trade dict, with a default where the dict lacks it.
\<close>

definition is_winning :: "ledger_trade \<Rightarrow> bool" where
  "is_winning t \<longleftrightarrow>
     ttype t = ''SELL'' \<and>
     gt_pyfloat (case proceeds t of None \<Rightarrow> 0 | Some p \<Rightarrow> p)
                (case cost t of None \<Rightarrow> PosInf | Some c \<Rightarrow> Fin c)"

definition win_rate :: "ledger_trade list \<Rightarrow> real" where
  "win_rate ts =
     (let winning_trades = length (filter is_winning ts);
          total_trades = length (filter (\<lambda>t. ttype t = ''SELL'') ts)
      in if total_trades > 0 then real winning_trades / real total_trades else 0)"

record backtest_result =
  res_initial_capital :: real
  res_final_value :: real
  res_total_return :: real
  res_max_drawdown :: "real option"
  res_total_trades :: nat
  res_win_rate :: real
  res_equity_curve :: "(timestamp \<times> real) list"
  res_trades :: "ledger_trade list"

text \<open>
  The data frame is the list of its rows, each the index and the close. An empty frame
  gives an equity frame without a column \<open>value\<close>, and reading it raises
  \<open>KeyError\<close>.
\<close>

definition signal_rows :: "(timestamp \<times> real) list \<Rightarrow> int \<Rightarrow> int \<Rightarrow> py_error + row list" where
  "signal_rows data fast_period slow_period =
     (case calculate_sma (map snd data) fast_period of
        Inl e \<Rightarrow> Inl e
      | Inr sma_fast \<Rightarrow>
          (case calculate_sma (map snd data) slow_period of
             Inl e \<Rightarrow> Inl e
           | Inr sma_slow \<Rightarrow>
               Inr (map2 (\<lambda>(idx, close) pos. (idx, close, pos)) data
                         (diff (map2 signal_of sma_fast sma_slow)))))"

definition run_sma_crossover_backtest ::
    "(timestamp \<times> real) list \<Rightarrow> int \<Rightarrow> int \<Rightarrow> py_error + backtest_result" where
  "run_sma_crossover_backtest data fast_period slow_period =
     (case signal_rows data fast_period slow_period of
        Inl e \<Rightarrow> Inl e
      | Inr rows \<Rightarrow>
          let backtester = foldl process_row (SimpleBacktester_init 10000 (1 / 1000)) rows;
              values = map snd (bt_equity_curve backtester)
          in if values = [] then Inl KeyError
             else
               let final_value = last values;
                   total_return = (final_value - bt_initial_capital backtester)
                                  / bt_initial_capital backtester
               in Inr \<lparr>res_initial_capital = bt_initial_capital backtester,
                        res_final_value = final_value,
                        res_total_return = total_return,
                        res_max_drawdown = max_drawdown values,
                        res_total_trades = length (bt_trades backtester),
                        res_win_rate = win_rate (bt_trades backtester),
                        res_equity_curve = bt_equity_curve backtester,
                        res_trades = bt_trades backtester\<rparr>)"

section \<open>Strategies: \<open>strategies/base_strategy.py\<close>\<close>

text \<open>
  The dataclass \<open>Trade\<close>. Its fields \<open>entry_price\<close> and \<open>size\<close> carry the prefix
  \<open>trade_\<close> here, the first to tell it from the strategy's attribute of that name.
\<close>

record Trade =
  entry_time :: timestamp
  exit_time :: timestamp
  trade_entry_price :: real
  exit_price :: real
  trade_size :: real
  pnl :: real
  return_pct :: real

text \<open>
  \<open>self.trades\<close> is annotated \<open>List[Trade]\<close>, which Python does not enforce: an
  element is a \<open>Trade\<close> object or, as \<open>_record_trade\<close> appends them, a plain dict
  from keys to numbers.
\<close>

datatype trade_entry = TradeObject Trade | TradeDict "(string \<times> real) list"

record BaseStrategy =
  name :: string
  position :: real
  trades :: "trade_entry list"
  equity_curve :: "real list"
  current_capital :: real

definition buy :: "'a BaseStrategy_scheme \<Rightarrow> real \<Rightarrow> real option \<Rightarrow> 'a BaseStrategy_scheme" where
  "buy self sz price_arg = self\<lparr>position := position self + sz\<rparr>"

definition sell :: "'a BaseStrategy_scheme \<Rightarrow> real option \<Rightarrow> real option \<Rightarrow> 'a BaseStrategy_scheme" where
  "sell self sz price_arg =
     (let sz' = (case sz of None \<Rightarrow> position self | Some v \<Rightarrow> v)
      in self\<lparr>position := position self - sz'\<rparr>)"

definition calculate_position_size :: "'a BaseStrategy_scheme \<Rightarrow> real \<Rightarrow> real" where
  "calculate_position_size self risk_per_trade =
     (let risk_amount = current_capital self * risk_per_trade
      in risk_amount / 100)"

text \<open>
  Reading \<open>t.pnl\<close>: a \<open>Trade\<close> object has the attribute, a dict has not and the
  read raises \<open>AttributeError\<close>.
\<close>

fun attr_pnl :: "trade_entry \<Rightarrow> py_error + real" where
  "attr_pnl (TradeObject t) = Inr (pnl t)"
| "attr_pnl (TradeDict d) = Inl AttributeError"

text \<open>The reads of \<open>t.pnl\<close> over the list, in order, stopping at the first that raises.\<close>

fun pnls_of :: "trade_entry list \<Rightarrow> py_error + real list" where
  "pnls_of [] = Inr []"
| "pnls_of (t # ts) =
     (case attr_pnl t of
        Inl e \<Rightarrow> Inl e
      | Inr v \<Rightarrow> (case pnls_of ts of Inl e \<Rightarrow> Inl e | Inr vs \<Rightarrow> Inr (v # vs)))"

text \<open>\<open>round(x, n)\<close> on the idealised number: to \<open>n\<close> decimals, a tie to the even digit.\<close>

definition py_round :: "real \<Rightarrow> nat \<Rightarrow> real" where
  "py_round x n =
     (let y = x * 10 ^ n; f = \<lfloor>y\<rfloor>; r = y - of_int f
      in of_int (if r < 1 / 2 then f else if r > 1 / 2 then f + 1
                 else if even f then f else f + 1) / 10 ^ n)"

definition get_metrics :: "'a BaseStrategy_scheme \<Rightarrow> py_error + (string \<times> real) list" where
  "get_metrics self =
     (if trades self = [] then Inr [(''total_trades'', 0)]
      else
        case pnls_of (trades self) of
          Inl e \<Rightarrow> Inl e
        | Inr pnls \<Rightarrow>
            let winning_trades = filter (\<lambda>v. v > 0) pnls;
                losing_trades = filter (\<lambda>v. v < 0) pnls;
                total_pnl = sum_list pnls;
                win_rate_v = real (length winning_trades) / real (length (trades self));
                avg_win = (if winning_trades \<noteq> []
                           then sum_list winning_trades / real (length winning_trades) else 0);
                avg_loss = (if losing_trades \<noteq> []
                            then sum_list losing_trades / real (length losing_trades) else 0)
            in Inr [(''total_trades'', real (length (trades self))),
                    (''winning_trades'', real (length winning_trades)),
                    (''losing_trades'', real (length losing_trades)),
                    (''win_rate'', py_round win_rate_v 3),
                    (''total_pnl'', py_round total_pnl 2),
                    (''average_win'', py_round avg_win 2),
                    (''average_loss'', py_round avg_loss 2)])"

section \<open>Strategies: \<open>strategies/mean_reversion.py\<close>\<close>

record MeanReversionStrategy = BaseStrategy +
  rsi_period :: int
  rsi_oversold :: real
  rsi_overbought :: real
  price_history :: "real list"
  entry_price :: "real option"

text \<open>
  \<open>__init__\<close> (defaults: name \<open>"RSI Mean Reversion"\<close>, period 14, thresholds 30 and
  70), after \<open>BaseStrategy.__init__\<close>. It has no statement that can raise.
\<close>

definition MeanReversionStrategy_init :: "string \<Rightarrow> int \<Rightarrow> real \<Rightarrow> real \<Rightarrow> MeanReversionStrategy" where
  "MeanReversionStrategy_init nm period oversold overbought =
     \<lparr>name = nm, position = 0, trades = [], equity_curve = [], current_capital = 0,
      rsi_period = period, rsi_oversold = oversold, rsi_overbought = overbought,
      price_history = [], entry_price = None\<rparr>"

text \<open>The slice \<open>xs[k:]\<close>: a negative \<open>k\<close> counts from the end, and both ends clamp.\<close>

definition py_slice_from :: "int \<Rightarrow> 'a list \<Rightarrow> 'a list" where
  "py_slice_from k xs =
     (let n = int (length xs);
          start = (if k < 0 then max (n + k) 0 else min k n)
      in drop (nat start) xs)"

fun np_diff :: "real list \<Rightarrow> real list" where
  "np_diff (x # y # ys) = (y - x) # np_diff (y # ys)"
| "np_diff _ = []"

text \<open>\<open>np.mean\<close>; of an empty array it is NaN.\<close>

definition np_mean :: "real list \<Rightarrow> real option" where
  "np_mean xs = (if xs = [] then None else Some (sum_list xs / real (length xs)))"

text \<open>
  \<open>_calculate_rsi\<close>. NaN averages fail \<open>avg_loss == 0\<close> and make the result NaN.
\<close>

definition calculate_rsi :: "MeanReversionStrategy \<Rightarrow> real option" where
  "calculate_rsi self =
     (let prices = py_slice_from (- (rsi_period self + 1)) (price_history self);
          deltas = np_diff prices;
          gains = map (\<lambda>d. if d > 0 then d else 0) deltas;
          losses = map (\<lambda>d. if d < 0 then - d else 0) deltas
      in case (np_mean gains, np_mean losses) of
           (Some avg_gain, Some avg_loss) \<Rightarrow>
             if avg_loss = 0 then Some 100
             else let rs = avg_gain / avg_loss;
                      rsi = 100 - 100 / (1 + rs)
                  in Some rsi
         | _ \<Rightarrow> None)"

text \<open>\<open>_record_trade\<close>; \<open>if self.entry_price\<close> is false for \<open>None\<close> and for 0.\<close>

definition record_trade :: "MeanReversionStrategy \<Rightarrow> real \<Rightarrow> MeanReversionStrategy" where
  "record_trade self exit_price_arg =
     (case entry_price self of
        None \<Rightarrow> self
      | Some e \<Rightarrow>
          if e = 0 then self
          else let pnl_v = (exit_price_arg - e) * position self;
                   return_pct_v = (exit_price_arg - e) / e
               in self\<lparr>trades := trades self @
                         [TradeDict [(''pnl'', pnl_v), (''return'', return_pct_v),
                                     (''entry'', e), (''exit'', exit_price_arg)]]\<rparr>)"

text \<open>
  \<open>on_data\<close>, given \<open>data['close']\<close>. A NaN index is neither below the oversold nor
  above the overbought threshold.
\<close>

definition on_data :: "MeanReversionStrategy \<Rightarrow> real \<Rightarrow> MeanReversionStrategy" where
  "on_data self0 close_price =
     (let self = self0\<lparr>price_history := price_history self0 @ [close_price]\<rparr>
      in if int (length (price_history self)) < rsi_period self + 1 then self
         else
           let rsi = calculate_rsi self
           in if position self = 0 then
                (if (case rsi of None \<Rightarrow> False | Some v \<Rightarrow> v < rsi_oversold self) then
                   (let sz = calculate_position_size self (2 / 100);
                        self1 = buy self sz (Some close_price)
                    in self1\<lparr>entry_price := Some close_price\<rparr>)
                 else self)
              else if position self > 0 then
                (if (case rsi of None \<Rightarrow> False | Some v \<Rightarrow> v > rsi_overbought self) then
                   (let self1 = sell self None (Some close_price);
                        self2 = record_trade self1 close_price
                    in self2\<lparr>entry_price := None\<rparr>)
                 else if (case entry_price self of
                            None \<Rightarrow> False
                          | Some e \<Rightarrow> e \<noteq> 0 \<and> close_price < e * (95 / 100)) then
                   (let self1 = sell self None (Some close_price);
                        self2 = record_trade self1 close_price
                    in self2\<lparr>entry_price := None\<rparr>)
                 else self)
              else self)"

section \<open>Reference definitions, after the specification\<close>

text \<open>
  What the specification calls an invalid configuration of the mean-reversion strategy,
  over the options its constructor has: a period that is not positive, a threshold
  outside the open interval from 0 to 100, or an overbought threshold that is not above
  the oversold one. (The constructor has no stop-loss option: the factor 0.95 is a
  literal of \<open>on_data\<close>.)
\<close>

definition config_invalid :: "int \<Rightarrow> real \<Rightarrow> real \<Rightarrow> bool" where
  "config_invalid period oversold overbought \<longleftrightarrow>
     period \<le> 0 \<or> oversold \<le> 0 \<or> 100 \<le> oversold \<or> overbought \<le> 0 \<or> 100 \<le> overbought
     \<or> overbought \<le> oversold"

text \<open>The elements of a trade list that are plain dicts.\<close>

fun is_dict :: "trade_entry \<Rightarrow> bool" where
  "is_dict (TradeDict d) = True"
| "is_dict (TradeObject t) = False"

text \<open>
  The relative strength index in the specification's words (4.1): over the trailing
  \<open>period + 1\<close> closes, the gains and the losses of the \<open>period\<close> steps, each
  averaged over \<open>period\<close>; 100 where the average loss is zero.
\<close>

definition trailing :: "nat \<Rightarrow> real list \<Rightarrow> real list" where
  "trailing n closes = drop (length closes - n) closes"

definition avg_gain_spec :: "nat \<Rightarrow> real list \<Rightarrow> real" where
  "avg_gain_spec period closes =
     (let w = trailing (period + 1) closes
      in (\<Sum>i<period. max (w ! Suc i - w ! i) 0) / real period)"

definition avg_loss_spec :: "nat \<Rightarrow> real list \<Rightarrow> real" where
  "avg_loss_spec period closes =
     (let w = trailing (period + 1) closes
      in (\<Sum>i<period. max (w ! i - w ! Suc i) 0) / real period)"

definition relative_strength_index :: "nat \<Rightarrow> real list \<Rightarrow> real" where
  "relative_strength_index period closes =
     (if avg_loss_spec period closes = 0 then 100
      else 100 - 100 / (1 + avg_gain_spec period closes / avg_loss_spec period closes))"

text \<open>
  The maximum drawdown in the specification's words (4.5): the least, over the indices
  \<open>i\<close>, of the relative distance of \<open>equity[i]\<close> from the largest value up to and
  including \<open>i\<close>.
\<close>

definition running_max :: "real list \<Rightarrow> nat \<Rightarrow> real" where
  "running_max equity i = Max (set (take (Suc i) equity))"

definition max_drawdown_spec :: "real list \<Rightarrow> real" where
  "max_drawdown_spec equity =
     Min ((\<lambda>i. (equity ! i - running_max equity i) / running_max equity i)
          ` {..<length equity})"

section \<open>Properties of the ledger\<close>

lemma appended_trade_changes:
  "b\<lparr>bt_capital := c, bt_position := q, bt_trades := bt_trades b @ [t]\<rparr> \<noteq> b"
proof
  assume "b\<lparr>bt_capital := c, bt_position := q, bt_trades := bt_trades b @ [t]\<rparr> = b"
  then have "bt_trades (b\<lparr>bt_capital := c, bt_position := q, bt_trades := bt_trades b @ [t]\<rparr>)
             = bt_trades b"
    by (rule arg_cong)
  then show False by simp
qed

text \<open>
  C5. With a price that is not negative and a positive size: a buy (the size passed as
  it is) is rejected, the backtester left as it was, exactly when
  \<open>size * price * (1 + commission)\<close> exceeds the cash, and otherwise takes exactly
  that amount from the cash, adds the size to the position and appends one BUY trade
  whose cost is that amount; a sell (the size passed negated) is rejected exactly when
  the size exceeds the position, and otherwise adds
  \<open>size * price * (1 - commission)\<close> to the cash, takes the size from the position
  and appends one SELL trade with these proceeds.
\<close>

theorem execute_trade_buy_sell:
  assumes "0 \<le> p" and "0 < sz"
  shows "(execute_trade b p sz ts = b \<longleftrightarrow> sz * p * (1 + bt_commission b) > bt_capital b)
       \<and> (if sz * p * (1 + bt_commission b) > bt_capital b
          then execute_trade b p sz ts = b
          else execute_trade b p sz ts =
                 b\<lparr>bt_capital := bt_capital b - sz * p * (1 + bt_commission b),
                   bt_position := bt_position b + sz,
                   bt_trades := bt_trades b @
                     [\<lparr>timestamp = ts, ttype = ''BUY'', price = p, shares = sz,
                       cost = Some (sz * p * (1 + bt_commission b)), proceeds = None\<rparr>]\<rparr>)
       \<and> (execute_trade b p (- sz) ts = b \<longleftrightarrow> sz > bt_position b)
       \<and> (if sz > bt_position b
          then execute_trade b p (- sz) ts = b
          else execute_trade b p (- sz) ts =
                 b\<lparr>bt_capital := bt_capital b + sz * p * (1 - bt_commission b),
                   bt_position := bt_position b - sz,
                   bt_trades := bt_trades b @
                     [\<lparr>timestamp = ts, ttype = ''SELL'', price = p, shares = sz,
                       cost = None,
                       proceeds = Some (sz * p * (1 - bt_commission b))\<rparr>]\<rparr>)"
proof -
  have branches: "(if sz * p * (1 + bt_commission b) > bt_capital b
          then execute_trade b p sz ts = b
          else execute_trade b p sz ts =
                 b\<lparr>bt_capital := bt_capital b - sz * p * (1 + bt_commission b),
                   bt_position := bt_position b + sz,
                   bt_trades := bt_trades b @
                     [\<lparr>timestamp = ts, ttype = ''BUY'', price = p, shares = sz,
                       cost = Some (sz * p * (1 + bt_commission b)), proceeds = None\<rparr>]\<rparr>)"
       "(if sz > bt_position b
          then execute_trade b p (- sz) ts = b
          else execute_trade b p (- sz) ts =
                 b\<lparr>bt_capital := bt_capital b + sz * p * (1 - bt_commission b),
                   bt_position := bt_position b - sz,
                   bt_trades := bt_trades b @
                     [\<lparr>timestamp = ts, ttype = ''SELL'', price = p, shares = sz,
                       cost = None,
                       proceeds = Some (sz * p * (1 - bt_commission b))\<rparr>]\<rparr>)"
    using assms by (auto simp: execute_trade_def Let_def abs_mult algebra_simps)
  have "execute_trade b p sz ts = b \<longleftrightarrow> sz * p * (1 + bt_commission b) > bt_capital b"
    using branches(1) appended_trade_changes by (auto split: if_splits)
  moreover have "execute_trade b p (- sz) ts = b \<longleftrightarrow> sz > bt_position b"
    using branches(2) appended_trade_changes by (auto split: if_splits)
  ultimately show ?thesis using branches by blast
qed

theorem execute_trade_buy_sell_witness:
  "execute_trade (SimpleBacktester_init 10000 (1 / 1000)) 20 250 2 =
     \<lparr>bt_initial_capital = 10000, bt_commission = 1 / 1000, bt_capital = 4995,
      bt_position = 250,
      bt_trades = [\<lparr>timestamp = 2, ttype = ''BUY'', price = 20, shares = 250,
                     cost = Some 5005, proceeds = None\<rparr>],
      bt_equity_curve = []\<rparr>
   \<and> execute_trade (SimpleBacktester_init 10000 (1 / 1000)) 20 (- 250) 2 =
       SimpleBacktester_init 10000 (1 / 1000)
   \<and> execute_trade (SimpleBacktester_init 10000 (1 / 1000)) 20 500 2 =
       SimpleBacktester_init 10000 (1 / 1000)
   \<and> execute_trade ((SimpleBacktester_init 10000 (1 / 1000))\<lparr>bt_position := 250\<rparr>) 30 (- 250) 4 =
     \<lparr>bt_initial_capital = 10000, bt_commission = 1 / 1000, bt_capital = 34985 / 2,
      bt_position = 0,
      bt_trades = [\<lparr>timestamp = 4, ttype = ''SELL'', price = 30, shares = 250,
                     cost = None, proceeds = Some (14985 / 2)\<rparr>],
      bt_equity_curve = []\<rparr>"
  using execute_trade_buy_sell [of 20 250 "SimpleBacktester_init 10000 (1 / 1000)" 2]
    execute_trade_buy_sell [of 20 500 "SimpleBacktester_init 10000 (1 / 1000)" 2]
    execute_trade_buy_sell [of 30 250 "(SimpleBacktester_init 10000 (1 / 1000))\<lparr>bt_position := 250\<rparr>" 4]
  by (simp add: SimpleBacktester_init_def reset_def)

subsection \<open>Invariants of the ledger\<close>

lemma execute_trade_commission [simp]:
  "bt_commission (execute_trade b p sh ts) = bt_commission b"
  by (simp add: execute_trade_def Let_def)

lemma net_proceeds_nonneg:
  assumes "c \<le> (1::real)"
  shows "0 \<le> \<bar>x\<bar> - \<bar>x\<bar> * c"
  using assms by (simp add: mult_left_le)

lemma execute_trade_capital_nonneg:
  assumes "0 \<le> bt_capital b" and "bt_commission b \<le> 1"
  shows "0 \<le> bt_capital (execute_trade b p sh ts)"
  using assms(1) net_proceeds_nonneg [OF assms(2), of "sh * p"]
  by (simp add: execute_trade_def Let_def)

lemma execute_trade_position_nonneg:
  assumes "0 \<le> bt_position b"
  shows "0 \<le> bt_position (execute_trade b p sh ts)"
  using assms by (simp add: execute_trade_def Let_def)

lemma process_row_commission [simp]:
  "bt_commission (process_row b r) = bt_commission b"
  by (simp add: process_row_def Let_def split: prod.splits option.splits)

lemma process_row_capital_nonneg:
  assumes "0 \<le> bt_capital b" and "bt_commission b \<le> 1"
  shows "0 \<le> bt_capital (process_row b r)"
  using assms
  by (simp add: process_row_def Let_def execute_trade_capital_nonneg
           split: prod.splits option.splits)

lemma process_row_position_nonneg:
  assumes "0 \<le> bt_position b"
  shows "0 \<le> bt_position (process_row b r)"
  using assms
  by (simp add: process_row_def Let_def execute_trade_position_nonneg
           split: prod.splits option.splits)

lemma bar_states_capital_nonneg:
  "0 \<le> bt_capital b \<Longrightarrow> bt_commission b \<le> 1 \<Longrightarrow>
   \<forall>s \<in> set (bar_states b rows). 0 \<le> bt_capital s"
proof (induction rows arbitrary: b)
  case Nil
  show ?case by simp
next
  case (Cons r rows)
  have "0 \<le> bt_capital (process_row b r)" and "bt_commission (process_row b r) \<le> 1"
    using Cons.prems by (simp_all add: process_row_capital_nonneg)
  then show ?case using Cons.IH by simp
qed

lemma bar_states_position_nonneg:
  "0 \<le> bt_position b \<Longrightarrow> \<forall>s \<in> set (bar_states b rows). 0 \<le> bt_position s"
proof (induction rows arbitrary: b)
  case Nil
  show ?case by simp
next
  case (Cons r rows)
  have "0 \<le> bt_position (process_row b r)"
    using Cons.prems by (rule process_row_position_nonneg)
  then show ?case using Cons.IH by simp
qed

text \<open>The backtester that the run's loop ends with is the last of \<open>bar_states\<close>.\<close>

lemma foldl_process_row_last:
  "foldl process_row b rows = last (b # bar_states b rows)"
  by (induction rows arbitrary: b) simp_all

text \<open>
  C3. From a cash balance that is not negative, with a commission rate of at most 1
  (the run constructs its backtester with 10000 and 0.001), the cash is not negative
  after any row of the loop, whatever the closes and signals, and after any single
  call of the ledger: a buy that changes the backtester had a total cost, commission
  included, within the cash, and a sell never lowers the cash.
\<close>

theorem cash_never_negative:
  assumes "0 \<le> bt_capital b" and "bt_commission b \<le> 1"
  shows "(\<forall>s \<in> set (bar_states b rows). 0 \<le> bt_capital s)
       \<and> 0 \<le> bt_capital (execute_trade b p sh ts)
       \<and> (0 < sh \<and> execute_trade b p sh ts \<noteq> b \<longrightarrow>
            \<bar>sh * p\<bar> + \<bar>sh * p\<bar> * bt_commission b \<le> bt_capital b)
       \<and> (sh \<le> 0 \<longrightarrow> bt_capital b \<le> bt_capital (execute_trade b p sh ts))"
proof -
  have "sh \<le> 0 \<longrightarrow> bt_capital b \<le> bt_capital (execute_trade b p sh ts)"
    using net_proceeds_nonneg [OF assms(2), of "sh * p"]
    by (simp add: execute_trade_def Let_def)
  moreover have "0 < sh \<and> execute_trade b p sh ts \<noteq> b \<longrightarrow>
            \<bar>sh * p\<bar> + \<bar>sh * p\<bar> * bt_commission b \<le> bt_capital b"
    by (auto simp: execute_trade_def Let_def split: if_splits)
  ultimately show ?thesis
    using assms bar_states_capital_nonneg execute_trade_capital_nonneg by blast
qed

theorem cash_never_negative_witness:
  "map bt_capital
     (bar_states (SimpleBacktester_init 10000 (1 / 1000))
        [(0, 10, None), (1, 10, Some 0), (2, 20, Some 1), (3, 40, Some 0),
         (4, 30, Some (- 2))])
     = [10000, 10000, 4995, 4995, 24975 / 2]
   \<and> list_all (\<lambda>s. 0 \<le> bt_capital s)
       (bar_states (SimpleBacktester_init 10000 (1 / 1000))
          [(0, 10, None), (1, 10, Some 0), (2, 20, Some 1), (3, 40, Some 0),
           (4, 30, Some (- 2))])
   \<and> execute_trade (SimpleBacktester_init 10000 (1 / 1000)) 20 250 2
       \<noteq> SimpleBacktester_init 10000 (1 / 1000)
   \<and> \<bar>250 * 20\<bar> + \<bar>250 * 20\<bar> * bt_commission (SimpleBacktester_init 10000 (1 / 1000))
       \<le> bt_capital (SimpleBacktester_init 10000 (1 / 1000))
   \<and> bt_capital (SimpleBacktester_init 10000 (1 / 1000))
       \<le> bt_capital (execute_trade (SimpleBacktester_init 10000 (1 / 1000)) 30 0 4)"
  using cash_never_negative [of "SimpleBacktester_init 10000 (1 / 1000)"
          "[(0, 10, None), (1, 10, Some 0), (2, 20, Some 1), (3, 40, Some 0),
            (4, 30, Some (- 2))]" 20 250 2]
        cash_never_negative [of "SimpleBacktester_init 10000 (1 / 1000)" "[]" 30 0 4]
  by (simp add: SimpleBacktester_init_def reset_def process_row_def execute_trade_def
        get_portfolio_value_def Let_def)

section \<open>Properties of the strategies\<close>

text \<open>
  C9. \<open>buy\<close> adds the size to the position, \<open>sell\<close> takes the size from it, or the
  whole position where the size is omitted; every other field of the strategy (the
  capital, the trade list, the equity curve and what a subclass adds) is as before.
\<close>

theorem buy_sell_change_position_only:
  "buy self sz pr = self\<lparr>position := position self + sz\<rparr>
   \<and> sell self (Some sz) pr = self\<lparr>position := position self - sz\<rparr>
   \<and> sell self None pr = self\<lparr>position := 0\<rparr>
   \<and> current_capital (buy self sz pr) = current_capital self
   \<and> trades (buy self sz pr) = trades self
   \<and> equity_curve (buy self sz pr) = equity_curve self
   \<and> current_capital (sell self osz pr) = current_capital self
   \<and> trades (sell self osz pr) = trades self
   \<and> equity_curve (sell self osz pr) = equity_curve self"
  by (simp add: buy_def sell_def Let_def)

theorem buy_sell_change_position_only_witness:
  "buy ((MeanReversionStrategy_init ''RSI'' 14 30 70)\<lparr>current_capital := 1\<rparr>) 5 None =
     \<lparr>name = ''RSI'', position = 5, trades = [], equity_curve = [], current_capital = 1,
      rsi_period = 14, rsi_oversold = 30, rsi_overbought = 70, price_history = [],
      entry_price = None\<rparr>
   \<and> position (sell (MeanReversionStrategy_init ''RSI'' 14 30 70) (Some 5) None) = - 5"
  using buy_sell_change_position_only
          [of "(MeanReversionStrategy_init ''RSI'' 14 30 70)\<lparr>current_capital := 1\<rparr>" 5 None]
        buy_sell_change_position_only
          [of "MeanReversionStrategy_init ''RSI'' 14 30 70" 5 None]
  by (simp add: MeanReversionStrategy_init_def)

lemma sell_closes_position [simp]: "position (sell self None pr) = 0"
  by (simp add: sell_def)

lemma record_trade_frame [simp]:
  "position (record_trade m x) = position m"
  "current_capital (record_trade m x) = current_capital m"
  by (simp_all add: record_trade_def Let_def split: option.splits)

lemma on_data_current_capital [simp]:
  "current_capital (on_data m c) = current_capital m"
  by (simp add: on_data_def Let_def buy_def sell_def split: option.splits)

lemma on_data_position_nonneg:
  assumes "0 \<le> position m" and "0 \<le> current_capital m"
  shows "0 \<le> position (on_data m c)"
  using assms
  by (simp add: on_data_def Let_def buy_def calculate_position_size_def split: option.splits)

lemma foldl_on_data_position_nonneg:
  "0 \<le> position m \<Longrightarrow> 0 \<le> current_capital m \<Longrightarrow> 0 \<le> position (foldl on_data m bars)"
proof (induction bars arbitrary: m)
  case Nil
  then show ?case by simp
next
  case (Cons c bars)
  have "0 \<le> position (on_data m c)" and "0 \<le> current_capital (on_data m c)"
    using Cons.prems by (simp_all add: on_data_position_nonneg)
  then show ?case using Cons.IH by simp
qed

lemma execute_trades_position_nonneg:
  "0 \<le> bt_position b \<Longrightarrow>
   0 \<le> bt_position (foldl (\<lambda>s (p, sh, ts). execute_trade s p sh ts) b orders)"
proof (induction orders arbitrary: b)
  case Nil
  then show ?case by simp
next
  case (Cons x orders)
  obtain p sh ts where x: "x = (p, sh, ts)" by (cases x)
  have "0 \<le> bt_position (execute_trade b p sh ts)"
    using Cons.prems by (rule execute_trade_position_nonneg)
  then show ?case using Cons.IH x by simp
qed

text \<open>
  C4, as stated, fails at the strategy level: \<open>BaseStrategy.sell\<close> checks nothing, so
  selling one unit from a flat position leaves the position at -1, and so does buying
  a negative size.
\<close>

theorem strategy_sell_goes_short:
  "position (sell (MeanReversionStrategy_init ''RSI Mean Reversion'' 14 30 70) (Some 1) None) = - 1
   \<and> position (buy (MeanReversionStrategy_init ''RSI Mean Reversion'' 14 30 70) (- 1) None) < 0"
  by (simp add: sell_def buy_def MeanReversionStrategy_init_def)

text \<open>
  C4, amended. At the ledger the position is never negative: not after any sequence of
  \<open>execute_trade\<close> calls, and not after any row of the run. At the strategy level the
  position stays non-negative under a \<open>buy\<close> of non-negative size, under a \<open>sell\<close>
  whose size does not exceed the position, and under a \<open>sell\<close> without size (which
  leaves 0); these are the only orders \<open>on_data\<close> issues when the capital is not
  negative, so the position is non-negative after every bar it processes.
\<close>

theorem position_never_negative_amended:
  "(0 \<le> bt_position b \<longrightarrow>
      0 \<le> bt_position (foldl (\<lambda>s (p, sh, ts). execute_trade s p sh ts) b orders)
      \<and> (\<forall>s \<in> set (bar_states b rows). 0 \<le> bt_position s))
   \<and> (0 \<le> position self \<and> 0 \<le> sz \<longrightarrow> 0 \<le> position (buy self sz pr))
   \<and> (sz \<le> position self \<longrightarrow> 0 \<le> position (sell self (Some sz) pr))
   \<and> position (sell self None pr) = 0
   \<and> (0 \<le> position m \<and> 0 \<le> current_capital m \<longrightarrow> 0 \<le> position (foldl on_data m bars))"
proof -
  have "0 \<le> position self \<and> 0 \<le> sz \<longrightarrow> 0 \<le> position (buy self sz pr)"
    by (simp add: buy_def)
  moreover have "sz \<le> position self \<longrightarrow> 0 \<le> position (sell self (Some sz) pr)"
    by (simp add: sell_def)
  ultimately show ?thesis
    using execute_trades_position_nonneg bar_states_position_nonneg
      foldl_on_data_position_nonneg sell_closes_position
    by blast
qed

theorem position_never_negative_amended_witness:
  "map bt_position
     (bar_states (SimpleBacktester_init 10000 (1 / 1000))
        [(0, 10, None), (1, 10, Some 0), (2, 20, Some 1), (3, 40, Some 0),
         (4, 30, Some (- 2))]) = [0, 0, 250, 250, 0]
   \<and> bt_position (foldl (\<lambda>s (p, sh, ts). execute_trade s p sh ts)
        (SimpleBacktester_init 10000 (1 / 1000)) [(20, 250, 2), (30, - 300, 4)]) = 250
   \<and> position (buy (MeanReversionStrategy_init ''RSI'' 1 30 70) 2 None) = 2
   \<and> position (sell (buy (MeanReversionStrategy_init ''RSI'' 1 30 70) 2 None) (Some 2) None) = 0
   \<and> position (foldl on_data ((MeanReversionStrategy_init ''RSI'' 1 30 70)\<lparr>current_capital := 10000\<rparr>)
        [10, 9]) = 2"
  using position_never_negative_amended
    [of "SimpleBacktester_init 10000 (1 / 1000)" "[(20, 250, 2), (30, - 300, 4)]"
        "[(0, 10, None), (1, 10, Some 0), (2, 20, Some 1), (3, 40, Some 0), (4, 30, Some (- 2))]"
        "buy (MeanReversionStrategy_init ''RSI'' 1 30 70) 2 None" 2 None
        "(MeanReversionStrategy_init ''RSI'' 1 30 70)\<lparr>current_capital := 10000\<rparr>" "[10, 9]"]
  by (simp add: SimpleBacktester_init_def reset_def process_row_def execute_trade_def
        get_portfolio_value_def Let_def buy_def sell_def MeanReversionStrategy_init_def
        on_data_def calculate_rsi_def py_slice_from_def np_mean_def calculate_position_size_def)

subsection \<open>The win rate of a run\<close>

text \<open>
  No SELL dict written by \<open>execute_trade\<close> has a key \<open>cost\<close>, so no trade of a run
  passes the test of line 138 and every run that returns reports a win rate of 0.
\<close>

lemma not_winning_without_cost: "cost t = None \<Longrightarrow> \<not> is_winning t"
  by (simp add: is_winning_def)

lemma execute_trade_sells_lack_cost:
  assumes "list_all (\<lambda>t. ttype t = ''SELL'' \<longrightarrow> cost t = None) (bt_trades b)"
  shows "list_all (\<lambda>t. ttype t = ''SELL'' \<longrightarrow> cost t = None) (bt_trades (execute_trade b p sh ts))"
  using assms by (simp add: execute_trade_def Let_def)

lemma process_row_sells_lack_cost:
  assumes "list_all (\<lambda>t. ttype t = ''SELL'' \<longrightarrow> cost t = None) (bt_trades b)"
  shows "list_all (\<lambda>t. ttype t = ''SELL'' \<longrightarrow> cost t = None) (bt_trades (process_row b r))"
  using assms
  by (simp add: process_row_def Let_def execute_trade_sells_lack_cost
        split: prod.splits option.splits)

lemma foldl_process_row_sells_lack_cost:
  "list_all (\<lambda>t. ttype t = ''SELL'' \<longrightarrow> cost t = None) (bt_trades b) \<Longrightarrow>
   list_all (\<lambda>t. ttype t = ''SELL'' \<longrightarrow> cost t = None) (bt_trades (foldl process_row b rows))"
  by (induction rows arbitrary: b) (simp_all add: process_row_sells_lack_cost)

lemma win_rate_zero_without_cost:
  assumes "list_all (\<lambda>t. ttype t = ''SELL'' \<longrightarrow> cost t = None) ts"
  shows "win_rate ts = 0"
proof -
  have "filter is_winning ts = []"
    using assms by (auto simp: filter_empty_conv list_all_iff is_winning_def)
  then show ?thesis by (simp add: win_rate_def)
qed

lemma every_run_reports_win_rate_zero:
  assumes "run_sma_crossover_backtest data fast_period slow_period = Inr r"
  shows "res_win_rate r = 0"
proof -
  from assms obtain rows where
    r: "res_win_rate r
        = win_rate (bt_trades (foldl process_row (SimpleBacktester_init 10000 (1 / 1000)) rows))"
    by (auto simp: run_sma_crossover_backtest_def Let_def split: sum.splits if_splits)
  have "list_all (\<lambda>t. ttype t = ''SELL'' \<longrightarrow> cost t = None)
          (bt_trades (foldl process_row (SimpleBacktester_init 10000 (1 / 1000)) rows))"
    by (rule foldl_process_row_sells_lack_cost) (simp add: SimpleBacktester_init_def reset_def)
  then show ?thesis unfolding r by (rule win_rate_zero_without_cost)
qed

text \<open>
  C1 at a run with one winning round trip (fast period 1, slow period 2, closes
  10, 10, 20, 40, 30): 250 shares are bought at 20 for 5005 and sold at 30 for 7492.5,
  and the win rate reported is 0. The SELL dict has no key \<open>cost\<close>, so its proceeds
  are compared with \<open>float('inf')\<close>.
\<close>

theorem win_rate_zero_despite_winning_sell:
  "run_sma_crossover_backtest [(0, 10), (1, 10), (2, 20), (3, 40), (4, 30)] 1 2 =
     Inr \<lparr>res_initial_capital = 10000, res_final_value = 24975 / 2,
          res_total_return = 199 / 800, res_max_drawdown = Some (- (1003 / 5998)),
          res_total_trades = 2, res_win_rate = 0,
          res_equity_curve = [(0, 10000), (1, 10000), (2, 9995), (3, 14995), (4, 24975 / 2)],
          res_trades =
            [\<lparr>timestamp = 2, ttype = ''BUY'', price = 20, shares = 250,
              cost = Some 5005, proceeds = None\<rparr>,
             \<lparr>timestamp = 4, ttype = ''SELL'', price = 30, shares = 250,
              cost = None, proceeds = Some (14985 / 2)\<rparr>]\<rparr>"
  by (simp add: run_sma_crossover_backtest_def signal_rows_def calculate_sma_def
        upt_rec [of _ "numeral _"] upt_rec [of 0] process_row_def execute_trade_def Let_def
        SimpleBacktester_init_def reset_def get_portfolio_value_def win_rate_def
        is_winning_def max_drawdown_def drawdown_def)

subsection \<open>The record of an exit\<close>

text \<open>
  Whatever the bar, \<open>on_data\<close> leaves the trade list as it is or appends one record,
  whose pnl is 0: both exits call \<open>sell\<close> first.
\<close>

lemma on_data_appends_zero_pnl:
  "trades (on_data m c) = trades m
   \<or> (\<exists>e. entry_price m = Some e \<and>
          trades (on_data m c) =
            trades m @ [TradeDict [(''pnl'', 0), (''return'', (c - e) / e),
                                   (''entry'', e), (''exit'', c)]])"
  by (auto simp: on_data_def Let_def buy_def sell_def record_trade_def split: option.splits)

text \<open>
  C2 at a take-profit exit (period 1, capital 10000, closes 10, 9, 12): 2 units are
  bought at 9 and sold at 12; the entry price is cleared, and the record appended has
  a pnl of 0, not (12 - 9) * 2, since \<open>sell\<close> has set the position to 0 before
  \<open>_record_trade\<close> reads it.
\<close>

theorem exit_records_zero_pnl:
  "position (foldl on_data ((MeanReversionStrategy_init ''RSI Mean Reversion'' 1 30 70)
              \<lparr>current_capital := 10000\<rparr>) [10, 9]) = 2
   \<and> entry_price (foldl on_data ((MeanReversionStrategy_init ''RSI Mean Reversion'' 1 30 70)
              \<lparr>current_capital := 10000\<rparr>) [10, 9]) = Some 9
   \<and> foldl on_data ((MeanReversionStrategy_init ''RSI Mean Reversion'' 1 30 70)
              \<lparr>current_capital := 10000\<rparr>) [10, 9, 12] =
       \<lparr>name = ''RSI Mean Reversion'', position = 0,
        trades = [TradeDict [(''pnl'', 0), (''return'', 1 / 3), (''entry'', 9), (''exit'', 12)]],
        equity_curve = [], current_capital = 10000, rsi_period = 1,
        rsi_oversold = 30, rsi_overbought = 70, price_history = [10, 9, 12],
        entry_price = None\<rparr>"
  by (simp add: MeanReversionStrategy_init_def on_data_def calculate_rsi_def py_slice_from_def
        np_mean_def calculate_position_size_def buy_def sell_def record_trade_def Let_def)

lemma record_trade_config [simp]:
  "rsi_period (record_trade m x) = rsi_period m"
  "rsi_oversold (record_trade m x) = rsi_oversold m"
  "rsi_overbought (record_trade m x) = rsi_overbought m"
  "price_history (record_trade m x) = price_history m"
  by (simp_all add: record_trade_def Let_def split: option.splits)

lemma on_data_config:
  "rsi_period (on_data m c) = rsi_period m"
  "rsi_oversold (on_data m c) = rsi_oversold m"
  "rsi_overbought (on_data m c) = rsi_overbought m"
  "price_history (on_data m c) = price_history m @ [c]"
  by (simp_all add: on_data_def Let_def buy_def sell_def split: option.splits)

lemma foldl_on_data_config:
  "rsi_period (foldl on_data m bars) = rsi_period m
   \<and> rsi_oversold (foldl on_data m bars) = rsi_oversold m
   \<and> rsi_overbought (foldl on_data m bars) = rsi_overbought m
   \<and> price_history (foldl on_data m bars) = price_history m @ bars"
  by (induction bars arbitrary: m) (simp_all add: on_data_config)

text \<open>
  C8, as stated, fails: a strategy constructed with a period of -1 and an overbought
  threshold below the oversold one is returned like any other, and \<open>on_data\<close>
  processes its bars (the second one opens a position).
\<close>

theorem invalid_config_processes_bars:
  "config_invalid (- 1) 80 20
   \<and> foldl on_data (MeanReversionStrategy_init ''RSI Mean Reversion'' (- 1) 80 20) [10, 9] =
       \<lparr>name = ''RSI Mean Reversion'', position = 0, trades = [], equity_curve = [],
        current_capital = 0, rsi_period = - 1, rsi_oversold = 80, rsi_overbought = 20,
        price_history = [10, 9], entry_price = Some 9\<rparr>"
  by (simp add: config_invalid_def MeanReversionStrategy_init_def on_data_def calculate_rsi_def
        py_slice_from_def np_mean_def calculate_position_size_def buy_def Let_def)

text \<open>
  C8, amended. The constructor validates nothing: whatever the period and thresholds,
  it returns a flat strategy that stores them as given, and \<open>on_data\<close> then processes
  every bar, keeping the options and appending each close to the price history.
\<close>

theorem init_accepts_any_config:
  "MeanReversionStrategy_init nm period oversold overbought =
     \<lparr>name = nm, position = 0, trades = [], equity_curve = [], current_capital = 0,
      rsi_period = period, rsi_oversold = oversold, rsi_overbought = overbought,
      price_history = [], entry_price = None\<rparr>
   \<and> rsi_period (foldl on_data (MeanReversionStrategy_init nm period oversold overbought) bars)
       = period
   \<and> rsi_oversold (foldl on_data (MeanReversionStrategy_init nm period oversold overbought) bars)
       = oversold
   \<and> rsi_overbought (foldl on_data (MeanReversionStrategy_init nm period oversold overbought) bars)
       = overbought
   \<and> price_history (foldl on_data (MeanReversionStrategy_init nm period oversold overbought) bars)
       = bars"
  using foldl_on_data_config [of "MeanReversionStrategy_init nm period oversold overbought" bars]
  by (simp add: MeanReversionStrategy_init_def)

lemma record_trade_dicts:
  "list_all is_dict (trades m) \<Longrightarrow> list_all is_dict (trades (record_trade m x))"
  by (simp add: record_trade_def Let_def split: option.splits)

lemma on_data_dicts:
  "list_all is_dict (trades m) \<Longrightarrow> list_all is_dict (trades (on_data m c))"
  by (simp add: on_data_def Let_def buy_def sell_def record_trade_dicts split: option.splits)

lemma foldl_on_data_dicts:
  "list_all is_dict (trades m) \<Longrightarrow> list_all is_dict (trades (foldl on_data m bars))"
  by (induction bars arbitrary: m) (simp_all add: on_data_dicts)

lemma pnls_of_dicts:
  "ts \<noteq> [] \<Longrightarrow> list_all is_dict ts \<Longrightarrow> pnls_of ts = Inl AttributeError"
proof (cases ts)
  case Nil
  assume "ts \<noteq> []" with Nil show ?thesis by simp
next
  case (Cons t rest)
  assume "list_all is_dict ts"
  with Cons obtain d where "t = TradeDict d" by (cases t) simp_all
  with Cons show ?thesis by simp
qed

theorem init_accepts_any_config_witness:
  "rsi_period (MeanReversionStrategy_init ''RSI Mean Reversion'' (- 1) 80 20) = - 1
   \<and> price_history (foldl on_data (MeanReversionStrategy_init ''RSI Mean Reversion'' (- 1) 80 20)
        [10, 9]) = [10, 9]"
  using init_accepts_any_config [of "''RSI Mean Reversion''" "- 1" 80 20 "[10, 9]"]
  by (simp add: MeanReversionStrategy_init_def)

text \<open>
  C10. \<open>get_metrics\<close> returns \<open>{"total_trades": 0}\<close> when the trade list is empty.
  When a mean-reversion strategy that started with an empty trade list has recorded a
  trade while processing bars, \<open>get_metrics\<close> raises \<open>AttributeError\<close>: every
  element of its list is a dict, and the first read of \<open>t.pnl\<close> fails.
\<close>

theorem get_metrics_empty_or_fails:
  "(trades self = [] \<longrightarrow> get_metrics self = Inr [(''total_trades'', 0)])
   \<and> (trades m = [] \<and> trades (foldl on_data m bars) \<noteq> [] \<longrightarrow>
        get_metrics (foldl on_data m bars) = Inl AttributeError)"
proof -
  have "get_metrics (foldl on_data m bars) = Inl AttributeError"
    if "trades m = []" and "trades (foldl on_data m bars) \<noteq> []"
  proof -
    have "list_all is_dict (trades (foldl on_data m bars))"
      using that(1) by (simp add: foldl_on_data_dicts)
    with that(2) have "pnls_of (trades (foldl on_data m bars)) = Inl AttributeError"
      by (rule pnls_of_dicts)
    with that(2) show ?thesis by (simp add: get_metrics_def)
  qed
  then show ?thesis by (simp add: get_metrics_def)
qed

theorem get_metrics_empty_or_fails_witness:
  "get_metrics (MeanReversionStrategy_init ''RSI Mean Reversion'' 1 30 70)
     = Inr [(''total_trades'', 0)]
   \<and> trades (foldl on_data ((MeanReversionStrategy_init ''RSI Mean Reversion'' 1 30 70)
              \<lparr>current_capital := 10000\<rparr>) [10, 9, 12]) =
       [TradeDict [(''pnl'', 0), (''return'', 1 / 3), (''entry'', 9), (''exit'', 12)]]
   \<and> get_metrics (foldl on_data ((MeanReversionStrategy_init ''RSI Mean Reversion'' 1 30 70)
              \<lparr>current_capital := 10000\<rparr>) [10, 9, 12]) = Inl AttributeError"
  using get_metrics_empty_or_fails
    [of "MeanReversionStrategy_init ''RSI Mean Reversion'' 1 30 70"
        "(MeanReversionStrategy_init ''RSI Mean Reversion'' 1 30 70)\<lparr>current_capital := 10000\<rparr>"
        "[10, 9, 12]"]
  by (simp add: MeanReversionStrategy_init_def on_data_def calculate_rsi_def py_slice_from_def
        np_mean_def calculate_position_size_def buy_def sell_def record_trade_def Let_def)

section \<open>The relative strength index\<close>

lemma length_np_diff: "length (np_diff w) = length w - 1"
  by (induction w rule: np_diff.induct) simp_all

lemma nth_np_diff: "Suc i < length w \<Longrightarrow> np_diff w ! i = w ! Suc i - w ! i"
proof (induction w arbitrary: i rule: np_diff.induct)
  case (1 x y ys)
  then show ?case by (cases i) simp_all
qed simp_all

lemma sum_list_map_np_diff:
  "sum_list (map g (np_diff w)) = (\<Sum>i<length w - 1. g (w ! Suc i - w ! i))"
proof -
  have "sum_list (map g (np_diff w)) = (\<Sum>i<length (np_diff w). g (np_diff w ! i))"
    by (simp add: sum_list_sum_nth atLeast0LessThan)
  also have "\<dots> = (\<Sum>i<length w - 1. g (w ! Suc i - w ! i))"
    by (rule sum.cong) (simp_all add: nth_np_diff length_np_diff)
  finally show ?thesis .
qed

lemma py_slice_from_trailing:
  assumes "0 \<le> p" and "p + 1 \<le> int (length h)"
  shows "py_slice_from (- (p + 1)) h = trailing (nat p + 1) h"
proof -
  have "nat (int (length h) + (- (p + 1))) = length h - (nat p + 1)"
    using assms by linarith
  then show ?thesis
    using assms by (simp add: py_slice_from_def trailing_def Let_def max_def)
qed

lemma length_trailing: "n \<le> length h \<Longrightarrow> length (trailing n h) = n"
  by (simp add: trailing_def)

lemma calculate_rsi_spec:
  assumes "0 < rsi_period self" and "rsi_period self + 1 \<le> int (length (price_history self))"
  shows "calculate_rsi self =
           Some (relative_strength_index (nat (rsi_period self)) (price_history self))"
proof -
  define p where "p = nat (rsi_period self)"
  define w where "w = trailing (p + 1) (price_history self)"
  have p: "0 < p" "rsi_period self = int p" using assms(1) by (simp_all add: p_def)
  have sl: "py_slice_from (- (rsi_period self + 1)) (price_history self) = w"
    unfolding w_def p_def using assms by (intro py_slice_from_trailing) simp_all
  have lw: "length w = p + 1"
    using assms(2) p(2) by (simp add: w_def length_trailing)
  have ld: "length (np_diff w) = p" using lw by (simp add: length_np_diff)
  have nonempty: "np_diff w \<noteq> []" using ld p(1) by auto
  define G where "G = sum_list (map (\<lambda>d. if d > 0 then d else 0) (np_diff w))"
  define L where "L = sum_list (map (\<lambda>d. if d < 0 then - d else 0) (np_diff w))"
  have g: "G = (\<Sum>i<p. max (w ! Suc i - w ! i) 0)"
    unfolding G_def sum_list_map_np_diff lw by (rule sum.cong) (simp_all add: max_def)
  have l: "L = (\<Sum>i<p. max (w ! i - w ! Suc i) 0)"
    unfolding L_def sum_list_map_np_diff lw by (rule sum.cong) (simp_all add: max_def)
  have mg: "np_mean (map (\<lambda>d. if d > 0 then d else 0) (np_diff w)) = Some (G / real p)"
    using nonempty by (simp add: np_mean_def ld G_def)
  have ml: "np_mean (map (\<lambda>d. if d < 0 then - d else 0) (np_diff w)) = Some (L / real p)"
    using nonempty by (simp add: np_mean_def ld L_def)
  have code: "calculate_rsi self =
      Some (if L / real p = 0 then 100 else 100 - 100 / (1 + (G / real p) / (L / real p)))"
    unfolding calculate_rsi_def sl Let_def mg ml by simp
  have ag: "avg_gain_spec p (price_history self) = G / real p"
    unfolding avg_gain_spec_def Let_def w_def [symmetric] g by (rule refl)
  have al: "avg_loss_spec p (price_history self) = L / real p"
    unfolding avg_loss_spec_def Let_def w_def [symmetric] l by (rule refl)
  show ?thesis
    unfolding code relative_strength_index_def p_def [symmetric] ag al by (rule refl)
qed

text \<open>
  C6. For a positive period: once the price history holds at least \<open>period + 1\<close>
  closes, \<open>_calculate_rsi\<close> returns 100 where the average loss over the trailing
  \<open>period\<close> steps is zero, and \<open>100 - 100 / (1 + avg_gain / avg_loss)\<close> otherwise;
  and while the history, the new close included, holds fewer than \<open>period + 1\<close>
  closes, \<open>on_data\<close> only appends the close: no order, no other change of state.
\<close>

theorem rsi_matches_spec:
  assumes "0 < rsi_period self"
  shows "(rsi_period self + 1 \<le> int (length (price_history self)) \<longrightarrow>
            calculate_rsi self =
              Some (if avg_loss_spec (nat (rsi_period self)) (price_history self) = 0 then 100
                    else 100 - 100 / (1 + avg_gain_spec (nat (rsi_period self)) (price_history self)
                                         / avg_loss_spec (nat (rsi_period self)) (price_history self))))
       \<and> (int (length (price_history self)) + 1 < rsi_period self + 1 \<longrightarrow>
            on_data self c = self\<lparr>price_history := price_history self @ [c]\<rparr>)"
proof -
  have "on_data self c = self\<lparr>price_history := price_history self @ [c]\<rparr>"
    if "int (length (price_history self)) + 1 < rsi_period self + 1"
    using that by (simp add: on_data_def Let_def)
  then show ?thesis
    using calculate_rsi_spec [OF assms] by (simp add: relative_strength_index_def)
qed

theorem rsi_matches_spec_witness:
  "calculate_rsi ((MeanReversionStrategy_init ''RSI'' 2 30 70)\<lparr>price_history := [10, 12, 11]\<rparr>)
     = Some (200 / 3)
   \<and> calculate_rsi ((MeanReversionStrategy_init ''RSI'' 2 30 70)\<lparr>price_history := [10, 12, 13]\<rparr>)
     = Some 100
   \<and> on_data ((MeanReversionStrategy_init ''RSI'' 2 30 70)\<lparr>price_history := [10]\<rparr>) 12
     = (MeanReversionStrategy_init ''RSI'' 2 30 70)\<lparr>price_history := [10, 12]\<rparr>"
  using rsi_matches_spec [of "(MeanReversionStrategy_init ''RSI'' 2 30 70)\<lparr>price_history := [10, 12, 11]\<rparr>" 0]
    rsi_matches_spec [of "(MeanReversionStrategy_init ''RSI'' 2 30 70)\<lparr>price_history := [10, 12, 13]\<rparr>" 0]
    rsi_matches_spec [of "(MeanReversionStrategy_init ''RSI'' 2 30 70)\<lparr>price_history := [10]\<rparr>" 12]
  by (simp add: MeanReversionStrategy_init_def avg_loss_spec_def avg_gain_spec_def trailing_def
        Let_def eval_nat_numeral)

section \<open>The maximum drawdown\<close>

lemma length_expanding_max_from [simp]: "length (expanding_max_from m xs) = length xs"
  by (induction xs arbitrary: m) simp_all

lemma length_expanding_max [simp]: "length (expanding_max xs) = length xs"
  by (cases xs) simp_all

lemma nth_expanding_max_from:
  "i < length xs \<Longrightarrow> expanding_max_from m xs ! i = Max (insert m (set (take (Suc i) xs)))"
proof (induction xs arbitrary: m i)
  case Nil
  then show ?case by simp
next
  case (Cons x xs)
  show ?case
  proof (cases i)
    case 0
    then show ?thesis by (simp add: max.commute)
  next
    case (Suc j)
    with Cons.prems have j: "j < length xs" by simp
    have "expanding_max_from m (x # xs) ! i = Max (insert (max m x) (set (take (Suc j) xs)))"
      using Suc Cons.IH [OF j] by simp
    also have "\<dots> = Max (insert m (insert x (set (take (Suc j) xs))))"
    proof -
      have "set (take (Suc j) xs) \<noteq> {}" using j by (cases xs) simp_all
      then show ?thesis by (simp add: max.assoc)
    qed
    finally show ?thesis using Suc by simp
  qed
qed

lemma nth_expanding_max:
  "i < length xs \<Longrightarrow> expanding_max xs ! i = running_max xs i"
proof (cases xs)
  case Nil
  assume "i < length xs" with Nil show ?thesis by simp
next
  case (Cons x ys)
  assume i: "i < length xs"
  show ?thesis
  proof (cases i)
    case 0
    with Cons show ?thesis by (simp add: running_max_def)
  next
    case (Suc j)
    with i Cons have "j < length ys" by simp
    then show ?thesis using Suc Cons by (simp add: running_max_def nth_expanding_max_from)
  qed
qed

lemma running_max_ge: "i < length xs \<Longrightarrow> xs ! i \<le> running_max xs i"
proof -
  assume i: "i < length xs"
  then have "take (Suc i) xs ! i = xs ! i" and "i < length (take (Suc i) xs)" by simp_all
  then have "xs ! i \<in> set (take (Suc i) xs)" by (metis nth_mem)
  then show ?thesis by (simp add: running_max_def)
qed

lemma running_max_in: "i < length xs \<Longrightarrow> running_max xs i \<in> set xs"
proof -
  assume i: "i < length xs"
  then have "set (take (Suc i) xs) \<noteq> {}" by (cases xs) simp_all
  then have "running_max xs i \<in> set (take (Suc i) xs)"
    unfolding running_max_def by (intro Max_in) simp_all
  then show ?thesis by (rule in_set_takeD)
qed

lemma running_max_sorted:
  assumes "sorted xs" and "i < length xs"
  shows "running_max xs i = xs ! i"
proof (rule antisym)
  have "\<forall>a \<in> set (take (Suc i) xs). a \<le> xs ! i"
  proof
    fix a assume "a \<in> set (take (Suc i) xs)"
    then obtain k where k: "k < length (take (Suc i) xs)" "a = take (Suc i) xs ! k"
      by (auto simp: in_set_conv_nth)
    then have "k \<le> i" and "a = xs ! k" by simp_all
    then show "a \<le> xs ! i" using assms by (simp add: sorted_nth_mono)
  qed
  moreover have "set (take (Suc i) xs) \<noteq> {}" using assms(2) by (cases xs) simp_all
  ultimately show "running_max xs i \<le> xs ! i" by (simp add: running_max_def)
next
  show "xs ! i \<le> running_max xs i" using assms(2) by (rule running_max_ge)
qed

lemma drawdown_nth_form:
  "drawdown vs = map (\<lambda>i. (vs ! i - running_max vs i) / running_max vs i) [0..<length vs]"
  by (rule nth_equalityI) (simp_all add: drawdown_def nth_expanding_max)

lemma set_drawdown:
  "set (drawdown vs) = (\<lambda>i. (vs ! i - running_max vs i) / running_max vs i) ` {..<length vs}"
  by (simp add: drawdown_nth_form atLeast0LessThan)

lemma min_list_drawdown:
  assumes "vs \<noteq> []"
  shows "min_list (drawdown vs) = max_drawdown_spec vs"
proof -
  have "drawdown vs \<noteq> []" using assms by (simp add: drawdown_nth_form)
  then have "min_list (drawdown vs) = Min (set (drawdown vs))" by (rule min_list_Min)
  then show ?thesis by (simp add: set_drawdown max_drawdown_spec_def)
qed

lemma expanding_max_pos:
  assumes "\<forall>v \<in> set vs. 0 < v"
  shows "0 \<notin> set (expanding_max vs)"
proof
  assume "0 \<in> set (expanding_max vs)"
  then obtain i where i: "i < length vs" "expanding_max vs ! i = 0"
    by (auto simp: in_set_conv_nth)
  then have "running_max vs i = 0" by (simp add: nth_expanding_max)
  moreover have "running_max vs i \<in> set vs" using i(1) by (rule running_max_in)
  ultimately show False using assms by force
qed

lemma max_drawdown_spec_nonpos:
  assumes "vs \<noteq> []"
  shows "max_drawdown_spec vs \<le> 0"
proof -
  have "running_max vs 0 = vs ! 0" using assms by (cases vs) (simp_all add: running_max_def)
  then have "(vs ! 0 - running_max vs 0) / running_max vs 0 = 0" by simp
  moreover have "0 \<in> {..<length vs}" using assms by simp
  ultimately have "0 \<in> (\<lambda>i. (vs ! i - running_max vs i) / running_max vs i) ` {..<length vs}"
    by (metis (mono_tags, lifting) image_eqI)
  then show ?thesis unfolding max_drawdown_spec_def by (intro Min_le) simp_all
qed

lemma max_drawdown_spec_sorted:
  assumes "vs \<noteq> []" and "sorted vs"
  shows "max_drawdown_spec vs = 0"
proof -
  have "(\<lambda>i. (vs ! i - running_max vs i) / running_max vs i) ` {..<length vs} = {0}"
    using assms by (auto simp: running_max_sorted)
  then show ?thesis by (simp add: max_drawdown_spec_def)
qed

text \<open>
  C7. For a non-empty equity series of positive values the run's maximum drawdown is
  the minimum over \<open>i\<close> of \<open>(equity[i] - running_max[i]) / running_max[i]\<close>; it is at
  most 0, and it is 0 when the series never decreases.
\<close>

theorem max_drawdown_matches_spec:
  assumes "equity \<noteq> []" and "\<forall>v \<in> set equity. 0 < v"
  shows "max_drawdown equity = Some (max_drawdown_spec equity)
       \<and> max_drawdown_spec equity \<le> 0
       \<and> (sorted equity \<longrightarrow> max_drawdown equity = Some 0)"
proof -
  have "max_drawdown equity = Some (max_drawdown_spec equity)"
    using assms by (simp add: max_drawdown_def expanding_max_pos min_list_drawdown)
  then show ?thesis
    using assms(1) max_drawdown_spec_nonpos max_drawdown_spec_sorted by simp
qed

theorem max_drawdown_matches_spec_witness:
  "max_drawdown [10000, 9995, 14995, 24975 / 2] = Some (- (1003 / 5998))
   \<and> max_drawdown_spec [10000, 9995, 14995, 24975 / 2] = - (1003 / 5998)
   \<and> max_drawdown [10000, 10000, 10500] = Some 0"
  using max_drawdown_matches_spec [of "[10000, 9995, 14995, 24975 / 2]"]
    max_drawdown_matches_spec [of "[10000, 10000, 10500]"]
  by (simp add: max_drawdown_def drawdown_def)

end
